theory Spec2Isabelle
  imports Main
begin

section \<open>JavaScript values\<close>

text \<open>
  The values a filter can hold (\<open>FilterValue\<close>): null, undefined, strings, numbers,
  booleans, dates and arrays. Only the zero-ness of a number and its \<open>typeof\<close> tag are
  observed by the code below, so a number is an integer or \<open>NaN\<close>.
\<close>

datatype js_value =
    Null
  | Undefined
  | Str string
  | Num int
  | NaN
  | Bool bool
  | Date int
  | Arr "js_value list"

datatype js_error = TypeError

text \<open>\<open>Boolean(v)\<close>, the coercion behind \<open>!v\<close>, \<open>&&\<close> and \<open>||\<close>.\<close>

fun truthy :: "js_value \<Rightarrow> bool" where
  "truthy Null = False"
| "truthy Undefined = False"
| "truthy (Str s) = (s \<noteq> [])"
| "truthy (Num n) = (n \<noteq> 0)"
| "truthy NaN = False"
| "truthy (Bool b) = b"
| "truthy (Date d) = True"
| "truthy (Arr xs) = True"

fun typeof :: "js_value \<Rightarrow> string" where
  "typeof Null = ''object''"
| "typeof Undefined = ''undefined''"
| "typeof (Str s) = ''string''"
| "typeof (Num n) = ''number''"
| "typeof NaN = ''number''"
| "typeof (Bool b) = ''boolean''"
| "typeof (Date d) = ''object''"
| "typeof (Arr xs) = ''object''"

text \<open>A property that holds a string or null: \<open>Boolean\<close> of it.\<close>

fun truthy_str :: "string option \<Rightarrow> bool" where
  "truthy_str None = False"
| "truthy_str (Some s) = (s \<noteq> [])"

text \<open>\<open>String.prototype.includes\<close>: the needle occurs at some position of the string.\<close>

fun str_includes :: "string \<Rightarrow> string \<Rightarrow> bool" where
  "str_includes [] sub = (sub = [])"
| "str_includes (c # cs) sub = (take (length sub) (c # cs) = sub \<or> str_includes cs sub)"

text \<open>\<open>s?.includes(sub)\<close> used as a condition: \<open>undefined\<close> (falsy) when \<open>s\<close> is null.\<close>

fun opt_includes :: "string option \<Rightarrow> string \<Rightarrow> bool" where
  "opt_includes None sub = False"
| "opt_includes (Some s) sub = str_includes s sub"

section \<open>The filter row\<close>

text \<open>
  \<open>ActiveFilter | NullableActiveFilter\<close>. The fields \<open>value\<close> and \<open>type\<close> of the source
  are \<open>fvalue\<close> and \<open>ftype\<close> here. The record is extensible: whatever further properties
  the object carries are its \<open>more\<close> part, which an object spread copies.
\<close>

record active_filter =
  path :: "string option"
  operator :: "string option"
  fvalue :: js_value
  ftype :: "string option"

definition EMPTY_FILTER :: active_filter where
  "EMPTY_FILTER = \<lparr>path = None, operator = Some ''='', fvalue = Str [], ftype = None\<rparr>"

text \<open>The \<open>errors\<close> state: one flag for each of \<open>path\<close>, \<open>operator\<close> and \<open>value\<close>.\<close>

record errs =
  err_path :: bool
  err_operator :: bool
  err_value :: bool

text \<open>An entry of \<open>filterOptions\<close> (a selectable column) as \<open>handleColumnChange\<close> reads it.\<close>

record filter_option =
  opt_value :: string
  opt_type :: "string option"
  defaultOperator :: "string option"

text \<open>
  What a label of an operator option can be: a string, or the member of
  \<open>Object.prototype\<close> of a given name (a function, or the prototype itself for
  \<open>__proto__\<close>), which is what a lookup in an object literal returns for a name the
  literal does not define but every object inherits.
\<close>

datatype label_value = Label string | Inherited string

text \<open>
  An entry of the list \<open>getOperatorOptions\<close> returns; \<open>None\<close> is an undefined label.
\<close>

record operator_option =
  label :: "label_value option"
  ovalue :: string

text \<open>
  The props of the row. The callbacks \<open>onSubmit\<close> and \<open>onRemove\<close> are observed through
  the logs of their calls in the state; \<open>onSubmit\<close> is the same function for the life of
  the row, so \<open>handleSubmit\<close> and \<open>debouncedSubmit\<close> are built once.
\<close>

record 'a row_props =
  p_value :: "'a active_filter_scheme"
  p_last :: bool
  p_name :: string

text \<open>
  The state of one mounted row: the \<open>filter\<close> state object (\<open>cur\<close>) with its identity
  (\<open>cur_id\<close>, fresh for every object \<open>setFilter\<close> builds), the \<open>errors\<close> state, the timer
  of the debounced function (milliseconds left, identity of the argument, the argument),
  the arguments \<open>debouncedSubmit\<close>, \<open>onSubmit\<close> and \<open>onRemove\<close> were called with, in
  order, and the exceptions a timer callback raised.
\<close>

record 'a row_state =
  cur :: "'a active_filter_scheme"
  cur_id :: nat
  errors :: errs
  timeout :: "(nat \<times> nat \<times> 'a active_filter_scheme) option"
  debounced_calls :: "'a active_filter_scheme list"
  onSubmit_calls :: "'a active_filter_scheme list"
  onRemove_calls :: "'a active_filter_scheme list"
  uncaught :: "js_error list"

text \<open>
  \<open>handleSubmit\<close>: the object \<open>onSubmit\<close> is called with, which is the argument after the
  assignment to its \<open>value\<close>. \<open>values.operator.includes\<close> raises on a null operator, and
  is evaluated only when \<open>!values.value\<close> is false.
\<close>

definition handleSubmit :: "'a active_filter_scheme \<Rightarrow> js_error + 'a active_filter_scheme" where
  "handleSubmit values =
     (if \<not> truthy (fvalue values) then Inr (values\<lparr>fvalue := Null\<rparr>)
      else case operator values of
             None \<Rightarrow> Inl TypeError
           | Some op \<Rightarrow> if str_includes op ''exists'' then Inr (values\<lparr>fvalue := Null\<rparr>)
                        else Inr values)"

text \<open>
  \<open>debounce(handleSubmit, 500)\<close>, the debounce of the component library: a call clears
  the running timer and starts one of 500 ms holding the new argument. The effect is its
  only caller and passes the \<open>filter\<close> state.
\<close>

definition debouncedSubmit :: "'a row_state \<Rightarrow> 'a row_state" where
  "debouncedSubmit st =
     st\<lparr>timeout := Some (500, cur_id st, cur st),
        debounced_calls := debounced_calls st @ [cur st]\<rparr>"

text \<open>
  The timer callback: \<open>handleSubmit\<close> on the held argument. The assignment inside
  \<open>handleSubmit\<close> is to the held object, which is the \<open>filter\<close> state itself when no
  \<open>setFilter\<close> came in between.
\<close>

definition run_timeout :: "'a row_state \<Rightarrow> 'a row_state" where
  "run_timeout st =
     (case timeout st of
        None \<Rightarrow> st
      | Some (r, i, args) \<Rightarrow>
          (case handleSubmit args of
             Inl e \<Rightarrow> st\<lparr>timeout := None, uncaught := uncaught st @ [e]\<rparr>
           | Inr v \<Rightarrow> st\<lparr>cur := (if i = cur_id st then v else cur st),
                         timeout := None,
                         onSubmit_calls := onSubmit_calls st @ [v]\<rparr>))"

text \<open>\<open>d\<close> milliseconds pass without an event; a timer that has run out fires.\<close>

definition elapse :: "nat \<Rightarrow> 'a row_state \<Rightarrow> 'a row_state" where
  "elapse d st =
     (case timeout st of
        None \<Rightarrow> st
      | Some (r, i, args) \<Rightarrow>
          if d < r then st\<lparr>timeout := Some (r - d, i, args)\<rparr> else run_timeout st)"

text \<open>
  The validation effect: the three error flags, \<open>setErrors\<close>, and the debounced
  submission of the \<open>filter\<close> state when no flag is set.
\<close>

definition validate :: "'a active_filter_scheme \<Rightarrow> errs" where
  "validate f =
     \<lparr>err_path = (\<not> truthy_str (path f)),
      err_operator = (\<not> truthy_str (operator f)),
      err_value = (\<not> opt_includes (operator f) ''exists''
                   \<and> typeof (fvalue f) \<noteq> ''boolean''
                   \<and> typeof (fvalue f) \<noteq> ''number''
                   \<and> \<not> truthy (fvalue f))\<rparr>"

definition Object_values :: "errs \<Rightarrow> bool list" where
  "Object_values e = [err_path e, err_operator e, err_value e]"

definition hasError :: "errs \<Rightarrow> bool" where
  "hasError e = list_ex (\<lambda>v. v) (Object_values e)"

definition validation_effect :: "'a row_state \<Rightarrow> 'a row_state" where
  "validation_effect st =
     (let es = validate (cur st);
          st' = st\<lparr>errors := es\<rparr>
      in if \<not> hasError es then debouncedSubmit st' else st')"

text \<open>
  \<open>setFilter(updater)\<close>: a new state object, a render, and the effect, whose dependency
  \<open>filter\<close> has changed.
\<close>

definition setFilter ::
  "('a active_filter_scheme \<Rightarrow> 'a active_filter_scheme) \<Rightarrow> 'a row_state \<Rightarrow> 'a row_state" where
  "setFilter updater st = validation_effect (st\<lparr>cur := updater (cur st), cur_id := Suc (cur_id st)\<rparr>)"

text \<open>The three change handlers; \<open>selected\<close> is null when the selection is cleared.\<close>

definition columnUpdater ::
  "filter_option option \<Rightarrow> 'a active_filter_scheme \<Rightarrow> 'a active_filter_scheme" where
  "columnUpdater selected currValues =
     currValues\<lparr>path := (case selected of None \<Rightarrow> None | Some s \<Rightarrow> Some (opt_value s)),
                ftype := (case selected of None \<Rightarrow> None | Some s \<Rightarrow> opt_type s),
                operator := (case selected of None \<Rightarrow> None | Some s \<Rightarrow> defaultOperator s),
                fvalue := Str []\<rparr>"

definition handleColumnChange :: "filter_option option \<Rightarrow> 'a row_state \<Rightarrow> 'a row_state" where
  "handleColumnChange selected = setFilter (columnUpdater selected)"

definition handleOperatorChange :: "operator_option option \<Rightarrow> 'a row_state \<Rightarrow> 'a row_state" where
  "handleOperatorChange selected =
     setFilter (\<lambda>currValues.
       currValues\<lparr>operator := (case selected of None \<Rightarrow> None | Some s \<Rightarrow> Some (ovalue s))\<rparr>)"

definition handleValueChange :: "js_value \<Rightarrow> 'a row_state \<Rightarrow> 'a row_state" where
  "handleValueChange newValue =
     setFilter (\<lambda>currValues. currValues\<lparr>fvalue := newValue\<rparr>)"

text \<open>\<open>handleRemove\<close> and the \<open>disabled\<close> attribute of the button it is bound to.\<close>

definition handleRemove :: "'a row_props \<Rightarrow> 'a row_state \<Rightarrow> 'a row_state" where
  "handleRemove props st = st\<lparr>onRemove_calls := onRemove_calls st @ [p_value props]\<rparr>"

definition remove_disabled :: "'a row_props \<Rightarrow> bool" where
  "remove_disabled props = (p_last props \<and> \<not> truthy_str (path (p_value props)))"

text \<open>A click on the remove button: a disabled button does not call its handler.\<close>

definition click_remove :: "'a row_props \<Rightarrow> 'a row_state \<Rightarrow> 'a row_state" where
  "click_remove props st = (if remove_disabled props then st else handleRemove props st)"

text \<open>
  Mounting: \<open>useState({...EMPTY_FILTER, ...value})\<close> with a \<open>value\<close> that has all four
  fields is a copy of \<open>value\<close>; the effect runs once after the first render.
\<close>

definition initial_state :: "'a active_filter_scheme \<Rightarrow> 'a row_state" where
  "initial_state f =
     \<lparr>cur = f, cur_id = 0,
      errors = \<lparr>err_path = False, err_operator = False, err_value = False\<rparr>,
      timeout = None, debounced_calls = [], onSubmit_calls = [], onRemove_calls = [],
      uncaught = []\<rparr>"

definition mount :: "'a row_props \<Rightarrow> 'a row_state" where
  "mount props = validation_effect (initial_state (p_value props))"

text \<open>
  Rows to evaluate the definitions on: the filter \<open>age = 30\<close> of a numeric column, the
  same with no value entered yet, a column \<open>name\<close> to select and the operator option
  \<open>exists\<close>.
\<close>

definition age_filter :: active_filter where
  "age_filter =
     \<lparr>path = Some ''age'', operator = Some ''='', fvalue = Num 30, ftype = Some ''number''\<rparr>"

definition empty_age_filter :: active_filter where
  "empty_age_filter =
     \<lparr>path = Some ''age'', operator = Some ''='', fvalue = Str [], ftype = Some ''number''\<rparr>"

definition age_props :: "unit row_props" where
  "age_props = \<lparr>p_value = age_filter, p_last = True, p_name = ''filter-0''\<rparr>"

definition name_column :: filter_option where
  "name_column =
     \<lparr>opt_value = ''name'', opt_type = Some ''string'', defaultOperator = Some ''~''\<rparr>"

definition exists_option :: operator_option where
  "exists_option = \<lparr>label = Some (Label ''exists''), ovalue = ''exists''\<rparr>"

text \<open>
  An entry of the operator catalog \<open>OPERATORS\<close>: the operator id (\<open>value\<close> in the
  source) and the optional \<open>typeLabelMap\<close>, an object literal from data-type tags and
  \<open>default\<close> to labels. The catalog itself is declared outside this component and is a
  parameter of \<open>getOperatorOptions\<close>.
\<close>

record operator_descr =
  op_value :: string
  typeLabelMap :: "(string \<rightharpoonup> string) option"

text \<open>
  The names every object literal inherits from \<open>Object.prototype\<close>. The operator \<open>in\<close>
  and a property read follow the prototype chain, so both find these names in a
  \<open>typeLabelMap\<close> that does not define them.
\<close>

definition Object_prototype :: "string list" where
  "Object_prototype =
     [''constructor'', ''__defineGetter__'', ''__defineSetter__'', ''hasOwnProperty'',
      ''__lookupGetter__'', ''__lookupSetter__'', ''isPrototypeOf'',
      ''propertyIsEnumerable'', ''toString'', ''valueOf'', ''__proto__'',
      ''toLocaleString'']"

text \<open>\<open>m[t]\<close>: the own property, else the inherited member, else undefined.\<close>

definition lookup :: "(string \<rightharpoonup> string) \<Rightarrow> string \<Rightarrow> label_value option" where
  "lookup m t =
     (case m t of
        Some l \<Rightarrow> Some (Label l)
      | None \<Rightarrow> if t \<in> set Object_prototype then Some (Inherited t) else None)"

text \<open>
  \<open>type && m[type]\<close>: null for a null \<open>type\<close>, the (falsy) \<open>type\<close> itself when it is
  the empty string, \<open>m[type]\<close> otherwise. \<open>None\<close> is a nullish result.
\<close>

fun and_lookup :: "string option \<Rightarrow> (string \<rightharpoonup> string) \<Rightarrow> label_value option" where
  "and_lookup None m = None"
| "and_lookup (Some t) m = (if t = [] then Some (Label []) else lookup m t)"

text \<open>\<open>Boolean(type) && type in m\<close>: an own or an inherited name.\<close>

fun in_map :: "string option \<Rightarrow> (string \<rightharpoonup> string) \<Rightarrow> bool" where
  "in_map None m = False"
| "in_map (Some t) m = (t \<noteq> [] \<and> (m t \<noteq> None \<or> t \<in> set Object_prototype))"

definition getOperatorOptions :: "operator_descr list \<Rightarrow> string option \<Rightarrow> operator_option list" where
  "getOperatorOptions OPERATORS ty =
     map (\<lambda>opr. \<lparr>label = (case typeLabelMap opr of
                          None \<Rightarrow> Some (Label (op_value opr))
                        | Some m \<Rightarrow> (case and_lookup ty m of
                                      Some l \<Rightarrow> Some l
                                    | None \<Rightarrow> lookup m ''default'')),
               ovalue = op_value opr\<rparr>)
         (filter (\<lambda>opr. case typeLabelMap opr of
                         None \<Rightarrow> True
                       | Some m \<Rightarrow> truthy_str (m ''default'') \<or> in_map ty m)
                 OPERATORS)"

text \<open>
  The same list in the words of the specification: the catalog operators that have no
  type-label map, a default label, or an explicit label for the type; each labelled by the
  type-specific label if present, otherwise the default label, otherwise the operator id.
\<close>

definition type_label :: "operator_descr \<Rightarrow> string option \<Rightarrow> string option" where
  "type_label opr ty =
     (case (typeLabelMap opr, ty) of (Some m, Some t) \<Rightarrow> m t | _ \<Rightarrow> None)"

definition default_label :: "operator_descr \<Rightarrow> string option" where
  "default_label opr = (case typeLabelMap opr of Some m \<Rightarrow> m ''default'' | None \<Rightarrow> None)"

definition spec_offered :: "string option \<Rightarrow> operator_descr \<Rightarrow> bool" where
  "spec_offered ty opr =
     (typeLabelMap opr = None \<or> default_label opr \<noteq> None \<or> type_label opr ty \<noteq> None)"

definition spec_label :: "string option \<Rightarrow> operator_descr \<Rightarrow> string" where
  "spec_label ty opr =
     (case type_label opr ty of
        Some l \<Rightarrow> l
      | None \<Rightarrow> (case default_label opr of Some d \<Rightarrow> d | None \<Rightarrow> op_value opr))"

definition spec_options :: "operator_descr list \<Rightarrow> string option \<Rightarrow> operator_option list" where
  "spec_options OPERATORS ty =
     map (\<lambda>opr. \<lparr>label = Some (Label (spec_label ty opr)), ovalue = op_value opr\<rparr>)
         (filter (spec_offered ty) OPERATORS)"

section \<open>The table\<close>

text \<open>
  The part of the table state the claims read. \<open>hiddenColumns\<close> is an object from column
  keys to booleans, kept as the list of its entries in key order. A top-level entry of
  \<open>structure\<close> has a key, an optional \<open>colGroup\<close> (its sub-columns) and an optional
  \<open>footer\<close> function of all the table data; an entry of \<open>structure.flattened\<close> has in
  addition the flags \<open>isColGroup\<close> and \<open>hasColGroupFooter\<close>, computed where the structure
  is built.
\<close>

record ('d, 'c) column =
  key :: string
  colGroup :: "'c list option"
  footer :: "('d \<Rightarrow> string) option"

record 'd flat_column =
  fc_key :: string
  fc_footer :: "('d \<Rightarrow> string) option"
  fc_isColGroup :: bool
  fc_hasColGroupFooter :: bool

record ('d, 'c) table_structure =
  entries :: "('d, 'c) column list"
  flattened :: "'d flat_column list"

definition allColumnsVisible :: "(string \<times> bool) list \<Rightarrow> bool" where
  "allColumnsVisible hiddenColumns =
     (let values = map snd hiddenColumns
      in length values = 0 \<or> list_all (\<lambda>value. \<not> value) values)"

definition hasFooter :: "('d, 'c) table_structure \<Rightarrow> bool" where
  "hasFooter structure = list_ex (\<lambda>struct. fc_footer struct \<noteq> None) (flattened structure)"

definition hasColGroupFooter :: "('d, 'c) table_structure \<Rightarrow> bool" where
  "hasColGroupFooter structure =
     list_ex (\<lambda>struct. colGroup struct \<noteq> None \<and> footer struct \<noteq> None) (entries structure)"

text \<open>A rendered \<open>TableCell\<close>: its key, the spans that are set, and its content.\<close>

record table_cell =
  cell_key :: string
  rowSpan :: "nat option"
  colSpan :: "nat option"
  children :: string

text \<open>The \<open>TableFooter\<close> element: each of its two rows is there or not.\<close>

record table_footer =
  plain_row :: "table_cell list option"
  group_row :: "table_cell list option"

definition plain_cell :: "('d, 'c) table_structure \<Rightarrow> 'd \<Rightarrow> 'd flat_column \<Rightarrow> table_cell" where
  "plain_cell structure allTableData struct =
     \<lparr>cell_key = fc_key struct,
      rowSpan = Some (if hasColGroupFooter structure
                         \<and> (\<not> fc_isColGroup struct \<or> \<not> fc_hasColGroupFooter struct)
                      then 2 else 1),
      colSpan = None,
      children = (case fc_footer struct of Some f \<Rightarrow> f allTableData | None \<Rightarrow> [])\<rparr>"

text \<open>An entry without both a column group and a footer renders \<open>null\<close>, that is, nothing.\<close>

definition group_cell :: "'d \<Rightarrow> ('d, 'c) column \<Rightarrow> table_cell option" where
  "group_cell allTableData struct =
     (case (colGroup struct, footer struct) of
        (Some g, Some f) \<Rightarrow>
          Some \<lparr>cell_key = key struct, rowSpan = None, colSpan = Some (length g),
                children = f allTableData\<rparr>
      | _ \<Rightarrow> None)"

definition render_footer :: "('d, 'c) table_structure \<Rightarrow> 'd \<Rightarrow> table_footer option" where
  "render_footer structure allTableData =
     (if hasFooter structure \<or> hasColGroupFooter structure then
        Some \<lparr>plain_row =
                 (if hasFooter structure
                  then Some (map (plain_cell structure allTableData) (flattened structure))
                  else None),
              group_row =
                 (if hasColGroupFooter structure
                  then Some (List.map_filter (group_cell allTableData) (entries structure))
                  else None)\<rparr>
      else None)"

text \<open>The "Show all" button: rendered when hidden columns are enabled.\<close>

record button =
  disabled :: bool

definition show_all_button :: "bool \<Rightarrow> (string \<times> bool) list \<Rightarrow> button option" where
  "show_all_button enableHiddenColumns hiddenColumns =
     (if enableHiddenColumns then Some \<lparr>disabled = allColumnsVisible hiddenColumns\<rparr> else None)"

text \<open>
  The calls made on the external \<open>update\<close> interface: \<open>update(patch)\<close> with a patch of
  \<open>rowsPerPage\<close> and \<open>page\<close>, and \<open>update.page(n)\<close>. The numbers of the runtime
  (doubles, \<open>NaN\<close> and the infinities) are a type parameter, with its zero.
\<close>

record 'num table_patch =
  rowsPerPage :: 'num
  page :: 'num

datatype 'num update_call = Update "'num table_patch" | Update_page 'num

record change_event =
  target_value :: string

definition onPageChange :: "'e \<Rightarrow> 'num \<Rightarrow> 'num update_call list \<Rightarrow> 'num update_call list" where
  "onPageChange e newPage calls = calls @ [Update_page newPage]"

text \<open>
  \<open>parseInt\<close> is the built-in of the runtime, from a string and a radix to a number; it
  is a parameter of the handler, which calls it on \<open>e.target.value\<close> with radix 10.
\<close>

definition onRowsPerPageChange ::
  "(string \<Rightarrow> nat \<Rightarrow> 'num::zero) \<Rightarrow> change_event \<Rightarrow> 'num update_call list
     \<Rightarrow> 'num update_call list" where
  "onRowsPerPageChange parseInt e calls =
     (let newRowsPerPage = parseInt (target_value e) 10
      in calls @ [Update \<lparr>rowsPerPage = newRowsPerPage, page = 0\<rparr>])"

text \<open>
  A catalog and a structure to evaluate the definitions on: three operators, one of them
  without type-label map, and a table of a plain column \<open>name\<close> with a footer and a
  column group \<open>scores\<close> of two columns with a group footer.
\<close>

definition sample_operators :: "operator_descr list" where
  "sample_operators =
     [\<lparr>op_value = ''exists'', typeLabelMap = None\<rparr>,
      \<lparr>op_value = ''='', typeLabelMap = Some [''default'' \<mapsto> ''equals'', ''date'' \<mapsto> ''is'']\<rparr>,
      \<lparr>op_value = ''~'', typeLabelMap = Some [''string'' \<mapsto> ''contains'']\<rparr>]"

definition sample_structure :: "(nat list, string) table_structure" where
  "sample_structure =
     \<lparr>entries =
        [\<lparr>key = ''name'', colGroup = None, footer = Some (\<lambda>d. ''rows'')\<rparr>,
         \<lparr>key = ''scores'', colGroup = Some [''maths'', ''physics''],
          footer = Some (\<lambda>d. ''all scores'')\<rparr>],
      flattened =
        [\<lparr>fc_key = ''name'', fc_footer = Some (\<lambda>d. ''rows''),
          fc_isColGroup = False, fc_hasColGroupFooter = False\<rparr>,
         \<lparr>fc_key = ''maths'', fc_footer = None,
          fc_isColGroup = True, fc_hasColGroupFooter = True\<rparr>,
         \<lparr>fc_key = ''physics'', fc_footer = None,
          fc_isColGroup = True, fc_hasColGroupFooter = True\<rparr>]\<rparr>"

section \<open>Properties of the filter row\<close>

lemma includes_iff: "str_includes s sub \<longleftrightarrow> (\<exists>p q. s = p @ sub @ q)"
proof (induction s)
  case Nil
  then show ?case by auto
next
  case (Cons c cs)
  have "take (length sub) (c # cs) = sub \<longleftrightarrow> (\<exists>q. c # cs = sub @ q)"
    by (metis append_eq_conv_conj append_take_drop_id)
  moreover have "(\<exists>p q. c # cs = p @ sub @ q) \<longleftrightarrow>
                 (\<exists>q. c # cs = sub @ q) \<or> (\<exists>p q. cs = p @ sub @ q)"
  proof
    assume "\<exists>p q. c # cs = p @ sub @ q"
    then obtain p q where pq: "c # cs = p @ sub @ q" by blast
    show "(\<exists>q. c # cs = sub @ q) \<or> (\<exists>p q. cs = p @ sub @ q)"
    proof (cases p)
      case Nil
      with pq show ?thesis by auto
    next
      case (Cons a p')
      with pq have "cs = p' @ sub @ q" by simp
      then show ?thesis by blast
    qed
  next
    assume "(\<exists>q. c # cs = sub @ q) \<or> (\<exists>p q. cs = p @ sub @ q)"
    then show "\<exists>p q. c # cs = p @ sub @ q"
    proof
      assume "\<exists>q. c # cs = sub @ q"
      then show ?thesis by (metis append_Nil)
    next
      assume "\<exists>p q. cs = p @ sub @ q"
      then obtain p q where "cs = p @ sub @ q" by blast
      then have "c # cs = (c # p) @ sub @ q" by simp
      then show ?thesis by blast
    qed
  qed
  ultimately show ?case using Cons.IH by simp
qed

lemma hasError_iff: "hasError e \<longleftrightarrow> err_path e \<or> err_operator e \<or> err_value e"
  by (simp add: hasError_def Object_values_def)

lemma typeof_boolean_iff: "typeof v = ''boolean'' \<longleftrightarrow> (\<exists>b. v = Bool b)"
  by (cases v) simp_all

lemma typeof_number_iff: "typeof v = ''number'' \<longleftrightarrow> (\<exists>n. v = Num n) \<or> v = NaN"
  by (cases v) simp_all

lemma truthy_str_iff: "truthy_str s \<longleftrightarrow> s \<noteq> None \<and> s \<noteq> Some []"
  by (cases s) simp_all

lemma validation_effect_calls:
  "debounced_calls (validation_effect st) =
     (if hasError (validate (cur st)) then debounced_calls st else debounced_calls st @ [cur st])"
  by (simp add: validation_effect_def debouncedSubmit_def Let_def)

lemma hasError_validate:
  "hasError (validate f) \<longleftrightarrow>
     \<not> truthy_str (path f) \<or> \<not> truthy_str (operator f)
     \<or> (\<not> opt_includes (operator f) ''exists'' \<and> typeof (fvalue f) \<noteq> ''boolean''
        \<and> typeof (fvalue f) \<noteq> ''number'' \<and> \<not> truthy (fvalue f))"
  by (simp add: hasError_iff validate_def)

text \<open>
  Claim C1. The validation effect calls the debounced submission exactly when the path is
  non-empty, the operator is non-empty, and the value is present (truthy), or is a boolean
  or a number, or the operator contains \<open>exists\<close>. When the path or the operator is
  missing, the effect calls nothing: the call log, the timer and the submissions are as
  they were.
\<close>

theorem validation_submits_iff:
  "(debounced_calls (validation_effect st) = debounced_calls st @ [cur st]
      \<longleftrightarrow> path (cur st) \<noteq> None \<and> path (cur st) \<noteq> Some []
          \<and> operator (cur st) \<noteq> None \<and> operator (cur st) \<noteq> Some []
          \<and> (truthy (fvalue (cur st))
              \<or> (\<exists>b. fvalue (cur st) = Bool b)
              \<or> ((\<exists>n. fvalue (cur st) = Num n) \<or> fvalue (cur st) = NaN)
              \<or> (\<exists>op p q. operator (cur st) = Some op \<and> op = p @ ''exists'' @ q)))
   \<and> (path (cur st) = None \<or> path (cur st) = Some []
        \<or> operator (cur st) = None \<or> operator (cur st) = Some []
      \<longrightarrow> debounced_calls (validation_effect st) = debounced_calls st
          \<and> timeout (validation_effect st) = timeout st
          \<and> onSubmit_calls (validation_effect st) = onSubmit_calls st)"
proof -
  let ?f = "cur st"
  have ex: "(\<exists>op p q. operator ?f = Some op \<and> op = p @ ''exists'' @ q)
              \<longleftrightarrow> opt_includes (operator ?f) ''exists''"
    by (cases "operator ?f") (simp_all add: includes_iff)
  have ok: "\<not> hasError (validate ?f) \<longleftrightarrow>
              path ?f \<noteq> None \<and> path ?f \<noteq> Some []
              \<and> operator ?f \<noteq> None \<and> operator ?f \<noteq> Some []
              \<and> (truthy (fvalue ?f)
                  \<or> (\<exists>b. fvalue ?f = Bool b)
                  \<or> ((\<exists>n. fvalue ?f = Num n) \<or> fvalue ?f = NaN)
                  \<or> (\<exists>op p q. operator ?f = Some op \<and> op = p @ ''exists'' @ q))"
    unfolding ex hasError_validate typeof_boolean_iff typeof_number_iff truthy_str_iff
    by blast
  have a: "debounced_calls (validation_effect st) = debounced_calls st @ [?f]
             \<longleftrightarrow> \<not> hasError (validate ?f)"
    by (simp add: validation_effect_calls)
  have b: "validation_effect st = st\<lparr>errors := validate ?f\<rparr>" if "hasError (validate ?f)"
    using that by (simp add: validation_effect_def Let_def)
  have c: "hasError (validate ?f)"
    if "path ?f = None \<or> path ?f = Some [] \<or> operator ?f = None \<or> operator ?f = Some []"
    using that ok by blast
  show ?thesis
  proof (intro conjI impI)
    show "debounced_calls (validation_effect st) = debounced_calls st @ [?f]
      \<longleftrightarrow> path ?f \<noteq> None \<and> path ?f \<noteq> Some []
          \<and> operator ?f \<noteq> None \<and> operator ?f \<noteq> Some []
          \<and> (truthy (fvalue ?f)
              \<or> (\<exists>b. fvalue ?f = Bool b)
              \<or> ((\<exists>n. fvalue ?f = Num n) \<or> fvalue ?f = NaN)
              \<or> (\<exists>op p q. operator ?f = Some op \<and> op = p @ ''exists'' @ q))"
      using a ok by simp
  next
    assume h: "path ?f = None \<or> path ?f = Some [] \<or> operator ?f = None \<or> operator ?f = Some []"
    show "debounced_calls (validation_effect st) = debounced_calls st"
      by (simp add: b [OF c [OF h]])
    show "timeout (validation_effect st) = timeout st"
      by (simp add: b [OF c [OF h]])
    show "onSubmit_calls (validation_effect st) = onSubmit_calls st"
      by (simp add: b [OF c [OF h]])
  qed
qed


theorem validation_submits_iff_witness:
  "debounced_calls (validation_effect (initial_state age_filter))
     = debounced_calls (initial_state age_filter) @ [cur (initial_state age_filter)]
   \<and> debounced_calls (validation_effect (initial_state (age_filter\<lparr>path := None\<rparr>)))
     = debounced_calls (initial_state (age_filter\<lparr>path := None\<rparr>))"
  using validation_submits_iff [of "initial_state age_filter"]
        validation_submits_iff [of "initial_state (age_filter\<lparr>path := None\<rparr>)"]
  by (simp add: initial_state_def age_filter_def)

text \<open>
  Claim C2. For a filter whose operator contains \<open>exists\<close>, \<open>handleSubmit\<close> passes the
  filter with \<open>value\<close> null to \<open>onSubmit\<close>, whatever the value was; so does the timer
  callback of the debounced submission holding that filter.
\<close>

theorem exists_operator_submits_null:
  assumes "operator values = Some op" and "str_includes op ''exists''"
  shows "handleSubmit values = Inr (values\<lparr>fvalue := Null\<rparr>)
         \<and> (\<forall>st r i. timeout st = Some (r, i, values) \<longrightarrow>
               onSubmit_calls (run_timeout st) = onSubmit_calls st @ [values\<lparr>fvalue := Null\<rparr>])"
proof -
  have h: "handleSubmit values = Inr (values\<lparr>fvalue := Null\<rparr>)"
    using assms by (simp add: handleSubmit_def)
  then show ?thesis
    by (simp add: run_timeout_def)
qed

theorem exists_operator_submits_null_witness:
  "handleSubmit (age_filter\<lparr>operator := Some ''!exists''\<rparr>)
     = Inr (age_filter\<lparr>operator := Some ''!exists'', fvalue := Null\<rparr>)"
  using exists_operator_submits_null [of "age_filter\<lparr>operator := Some ''!exists''\<rparr>" "''!exists''"]
  by (simp add: age_filter_def)

lemma setFilter_no_error:
  assumes "\<not> hasError (validate (u (cur st)))"
  shows "setFilter u st =
           st\<lparr>cur := u (cur st), cur_id := Suc (cur_id st), errors := validate (u (cur st)),
              timeout := Some (500, Suc (cur_id st), u (cur st)),
              debounced_calls := debounced_calls st @ [u (cur st)]\<rparr>"
  using assms by (simp add: setFilter_def validation_effect_def debouncedSubmit_def Let_def)

lemma elapse_early:
  "timeout st = Some (r, i, args) \<Longrightarrow> d < r \<Longrightarrow> onSubmit_calls (elapse d st) = onSubmit_calls st"
  by (simp add: elapse_def)

lemma elapse_fires:
  "timeout st = Some (r, i, args) \<Longrightarrow> r \<le> d \<Longrightarrow> handleSubmit args = Inr v \<Longrightarrow>
     onSubmit_calls (elapse d st) = onSubmit_calls st @ [v]"
  by (simp add: elapse_def run_timeout_def)

text \<open>
  Claim C4. A falsy value (the number 0, \<open>NaN\<close>, \<open>false\<close>, the empty string) is passed to
  \<open>onSubmit\<close> as null, whatever the operator. This holds although a boolean or a number
  passes validation: on a row with a path and an operator, entering such a value calls the
  debounced submission with the entered value, and 500 ms later \<open>onSubmit\<close> receives the
  filter with value null.
\<close>

theorem falsy_value_submits_null:
  assumes "\<not> truthy v"
  shows "handleSubmit (f\<lparr>fvalue := v\<rparr>) = Inr (f\<lparr>fvalue := Null\<rparr>)
         \<and> (truthy_str (path (cur st)) \<and> truthy_str (operator (cur st))
              \<and> (typeof v = ''boolean'' \<or> typeof v = ''number'')
            \<longrightarrow> \<not> hasError (validate ((cur st)\<lparr>fvalue := v\<rparr>))
                \<and> debounced_calls (handleValueChange v st)
                    = debounced_calls st @ [(cur st)\<lparr>fvalue := v\<rparr>]
                \<and> onSubmit_calls (elapse 500 (handleValueChange v st))
                    = onSubmit_calls st @ [(cur st)\<lparr>fvalue := Null\<rparr>])"
proof (intro conjI impI)
  have null: "handleSubmit (g\<lparr>fvalue := v\<rparr>) = Inr (g\<lparr>fvalue := Null\<rparr>)"
    for g :: "'c active_filter_scheme"
    using assms by (simp add: handleSubmit_def)
  show "handleSubmit (f\<lparr>fvalue := v\<rparr>) = Inr (f\<lparr>fvalue := Null\<rparr>)"
    by (rule null)
  assume h: "truthy_str (path (cur st)) \<and> truthy_str (operator (cur st))
              \<and> (typeof v = ''boolean'' \<or> typeof v = ''number'')"
  let ?g = "(cur st)\<lparr>fvalue := v\<rparr>"
  show ok: "\<not> hasError (validate ?g)"
    using h by (auto simp add: hasError_validate)
  have st': "handleValueChange v st =
               st\<lparr>cur := ?g, cur_id := Suc (cur_id st), errors := validate ?g,
                  timeout := Some (500, Suc (cur_id st), ?g),
                  debounced_calls := debounced_calls st @ [?g]\<rparr>"
    unfolding handleValueChange_def using ok by (rule setFilter_no_error)
  show "debounced_calls (handleValueChange v st) = debounced_calls st @ [?g]"
    by (simp add: st')
  have "onSubmit_calls (elapse 500 (handleValueChange v st))
          = onSubmit_calls (handleValueChange v st) @ [(cur st)\<lparr>fvalue := Null\<rparr>]"
    by (rule elapse_fires [where r = 500 and i = "Suc (cur_id st)" and args = ?g])
       (simp_all add: st' null)
  then show "onSubmit_calls (elapse 500 (handleValueChange v st))
               = onSubmit_calls st @ [(cur st)\<lparr>fvalue := Null\<rparr>]"
    by (simp add: st')
qed

theorem falsy_value_submits_null_witness:
  "handleSubmit (age_filter\<lparr>fvalue := Num 0\<rparr>) = Inr (age_filter\<lparr>fvalue := Null\<rparr>)
   \<and> onSubmit_calls (elapse 500 (handleValueChange (Num 0) (initial_state age_filter)))
       = [age_filter\<lparr>fvalue := Null\<rparr>]"
  using falsy_value_submits_null [of "Num 0" age_filter "initial_state age_filter"]
  by (simp add: initial_state_def age_filter_def)

text \<open>
  Claim C10. \<open>handleRemove\<close> calls \<open>onRemove\<close> with the filter value of the row, its
  \<open>value\<close> prop, whatever edits the row holds in its own state, and changes nothing else;
  the remove button is disabled exactly when the row is the last one and the path of that
  filter value is empty (null or the empty string), and a click on the enabled button is
  \<open>handleRemove\<close>.
\<close>

theorem remove_reports_value:
  "onRemove_calls (handleRemove props st) = onRemove_calls st @ [p_value props]
   \<and> cur (handleRemove props st) = cur st
   \<and> onSubmit_calls (handleRemove props st) = onSubmit_calls st
   \<and> (remove_disabled props
        \<longleftrightarrow> p_last props \<and> (path (p_value props) = None \<or> path (p_value props) = Some []))
   \<and> click_remove props st = (if remove_disabled props then st else handleRemove props st)"
  by (simp add: handleRemove_def remove_disabled_def click_remove_def truthy_str_iff)

theorem remove_reports_value_witness:
  "onRemove_calls (handleRemove age_props (mount age_props)) = [age_filter]
   \<and> \<not> remove_disabled age_props
   \<and> remove_disabled (age_props\<lparr>p_value := age_filter\<lparr>path := None\<rparr>\<rparr>)
   \<and> \<not> remove_disabled (age_props\<lparr>p_value := age_filter\<lparr>path := None\<rparr>, p_last := False\<rparr>)"
  using remove_reports_value [of age_props "mount age_props"]
        remove_reports_value [of "age_props\<lparr>p_value := age_filter\<lparr>path := None\<rparr>\<rparr>" "mount age_props"]
        remove_reports_value [of "age_props\<lparr>p_value := age_filter\<lparr>path := None\<rparr>, p_last := False\<rparr>" "mount age_props"]
  by (simp add: age_props_def age_filter_def mount_def initial_state_def validation_effect_def
        debouncedSubmit_def Let_def)

text \<open>
  Claim C5, amended. After a column is selected the filter has the operator the column
  declares as its default (null if it declares none), the empty string as value, the
  data type of the column as type, and the path of the selected column as path; every
  other property of the filter object is unchanged.
\<close>

theorem column_change_resets:
  "operator (cur (handleColumnChange (Some selected) st)) = defaultOperator selected
   \<and> fvalue (cur (handleColumnChange (Some selected) st)) = Str []
   \<and> ftype (cur (handleColumnChange (Some selected) st)) = opt_type selected
   \<and> path (cur (handleColumnChange (Some selected) st)) = Some (opt_value selected)
   \<and> active_filter.more (cur (handleColumnChange (Some selected) st))
       = active_filter.more (cur st)"
  by (simp add: handleColumnChange_def setFilter_def validation_effect_def debouncedSubmit_def
        columnUpdater_def Let_def)

theorem column_change_resets_witness:
  "cur (handleColumnChange (Some name_column) (initial_state age_filter))
     = \<lparr>path = Some ''name'', operator = Some ''~'', fvalue = Str [], ftype = Some ''string''\<rparr>"
  using column_change_resets [of name_column "initial_state age_filter"]
  by (simp add: name_column_def initial_state_def age_filter_def)

text \<open>
  Claim C5 as stated lists operator, value and type and leaves every other field
  unchanged. The path is another field, and it changes: selecting the column \<open>name\<close> on the
  filter of \<open>age\<close> moves the path from \<open>age\<close> to \<open>name\<close>.
\<close>

theorem column_change_path_counterexample:
  "path (cur (handleColumnChange (Some name_column) (initial_state age_filter)))
     \<noteq> path (cur (initial_state age_filter))"
  by (simp add: handleColumnChange_def setFilter_def validation_effect_def debouncedSubmit_def
        columnUpdater_def Let_def name_column_def initial_state_def age_filter_def)

text \<open>
  Claim C3, amended. Selecting the operator \<open>exists\<close> on a row whose path is non-empty
  calls the debounced submission at once, whatever the value field holds; \<open>onSubmit\<close> is
  not called by the selection nor during the next 500 ms, and after 500 ms without a
  further edit it is called with the path and the type of the row, the operator
  \<open>exists\<close> and the value null.
\<close>

theorem exists_selection_submits_after_delay:
  assumes "truthy_str (path (cur st))" and "ovalue selected = ''exists''"
  shows "debounced_calls (handleOperatorChange (Some selected) st)
           = debounced_calls st @ [(cur st)\<lparr>operator := Some ''exists''\<rparr>]
         \<and> onSubmit_calls (handleOperatorChange (Some selected) st) = onSubmit_calls st
         \<and> (\<forall>d. d < 500 \<longrightarrow>
               onSubmit_calls (elapse d (handleOperatorChange (Some selected) st))
                 = onSubmit_calls st)
         \<and> onSubmit_calls (elapse 500 (handleOperatorChange (Some selected) st))
             = onSubmit_calls st
                 @ [\<lparr>path = path (cur st), operator = Some ''exists'', fvalue = Null,
                     ftype = ftype (cur st), \<dots> = active_filter.more (cur st)\<rparr>]"
proof -
  let ?g = "(cur st)\<lparr>operator := Some ''exists''\<rparr>"
  let ?st' = "handleOperatorChange (Some selected) st"
  have ex: "str_includes ''exists'' ''exists''"
    by simp
  have ok: "\<not> hasError (validate ?g)"
    using assms(1) ex by (simp add: hasError_validate)
  have st': "?st' =
               st\<lparr>cur := ?g, cur_id := Suc (cur_id st), errors := validate ?g,
                  timeout := Some (500, Suc (cur_id st), ?g),
                  debounced_calls := debounced_calls st @ [?g]\<rparr>"
    unfolding handleOperatorChange_def using ok assms(2)
    by (simp add: setFilter_no_error)
  have tm: "timeout ?st' = Some (500, Suc (cur_id st), ?g)"
    by (simp add: st')
  have sub: "handleSubmit ?g = Inr (?g\<lparr>fvalue := Null\<rparr>)"
    using ex by (simp add: handleSubmit_def)
  have c1: "debounced_calls ?st' = debounced_calls st @ [?g]"
    by (simp add: st')
  have c2: "onSubmit_calls ?st' = onSubmit_calls st"
    by (simp add: st')
  have c3: "onSubmit_calls (elapse d ?st') = onSubmit_calls st" if "d < 500" for d
    using elapse_early [OF tm that] c2 by simp
  have "onSubmit_calls (elapse 500 ?st') = onSubmit_calls ?st' @ [?g\<lparr>fvalue := Null\<rparr>]"
    by (rule elapse_fires [OF tm _ sub]) simp
  then have c4: "onSubmit_calls (elapse 500 ?st')
                   = onSubmit_calls st
                       @ [\<lparr>path = path (cur st), operator = Some ''exists'', fvalue = Null,
                           ftype = ftype (cur st), \<dots> = active_filter.more (cur st)\<rparr>]"
    by (simp add: c2)
  from c1 c2 c3 c4 show ?thesis by blast
qed

theorem exists_selection_submits_after_delay_witness:
  "debounced_calls (handleOperatorChange (Some exists_option) (initial_state empty_age_filter))
     = [empty_age_filter\<lparr>operator := Some ''exists''\<rparr>]
   \<and> onSubmit_calls (elapse 499 (handleOperatorChange (Some exists_option) (initial_state empty_age_filter)))
     = []
   \<and> onSubmit_calls (elapse 500 (handleOperatorChange (Some exists_option) (initial_state empty_age_filter)))
     = [\<lparr>path = Some ''age'', operator = Some ''exists'', fvalue = Null, ftype = Some ''number''\<rparr>]"
  using exists_selection_submits_after_delay [of "initial_state empty_age_filter" exists_option]
  by (simp add: initial_state_def empty_age_filter_def exists_option_def)

text \<open>
  Claim C3 as stated has the filter submitted immediately upon the selection. On the
  filter of \<open>age\<close> with no value entered, \<open>onSubmit\<close> has not been called when the
  selection has been handled, nor 499 ms later.
\<close>

theorem exists_selection_not_immediate_counterexample:
  "onSubmit_calls (handleOperatorChange (Some exists_option) (initial_state empty_age_filter)) = []
   \<and> onSubmit_calls (elapse 499 (handleOperatorChange (Some exists_option) (initial_state empty_age_filter))) = []"
  by (simp add: handleOperatorChange_def setFilter_def validation_effect_def debouncedSubmit_def
        hasError_validate elapse_def Let_def initial_state_def empty_age_filter_def
        exists_option_def)

lemma offered_iff:
  assumes "ty \<noteq> Some []" and "\<forall>t. ty = Some t \<longrightarrow> t \<notin> set Object_prototype"
      and "default_label opr \<noteq> Some []"
  shows "(case typeLabelMap opr of
            None \<Rightarrow> True
          | Some m \<Rightarrow> truthy_str (m ''default'') \<or> in_map ty m)
         \<longleftrightarrow> spec_offered ty opr"
proof (cases "typeLabelMap opr")
  case None
  then show ?thesis by (simp add: spec_offered_def)
next
  case (Some m)
  have d: "truthy_str (m ''default'') \<longleftrightarrow> default_label opr \<noteq> None"
    using assms(3) Some by (simp add: default_label_def truthy_str_iff)
  have t: "in_map ty m \<longleftrightarrow> type_label opr ty \<noteq> None"
    using assms(1,2) Some by (cases ty) (simp_all add: type_label_def)
  show ?thesis
    using Some d t by (simp add: spec_offered_def)
qed

lemma default_not_inherited: "''default'' \<notin> set Object_prototype"
  by (simp add: Object_prototype_def)

lemma label_eq:
  assumes "ty \<noteq> Some []" and "\<forall>t. ty = Some t \<longrightarrow> t \<notin> set Object_prototype"
      and "spec_offered ty opr"
  shows "(case typeLabelMap opr of
            None \<Rightarrow> Some (Label (op_value opr))
          | Some m \<Rightarrow> (case and_lookup ty m of
                        Some l \<Rightarrow> Some l
                      | None \<Rightarrow> lookup m ''default''))
         = Some (Label (spec_label ty opr))"
proof (cases "typeLabelMap opr")
  case None
  then show ?thesis by (simp add: spec_label_def type_label_def default_label_def)
next
  case (Some m)
  have a: "and_lookup ty m = map_option Label (type_label opr ty)"
    using assms(1,2) Some
    by (cases ty) (simp_all add: type_label_def lookup_def split: option.splits)
  show ?thesis
  proof (cases "type_label opr ty")
    case (Some l)
    with a \<open>typeLabelMap opr = Some m\<close> show ?thesis by (simp add: spec_label_def)
  next
    case None
    then have "default_label opr \<noteq> None"
      using assms(3) \<open>typeLabelMap opr = Some m\<close> by (simp add: spec_offered_def)
    then obtain d where d: "default_label opr = Some d" by blast
    then have "m ''default'' = Some d"
      using \<open>typeLabelMap opr = Some m\<close> by (simp add: default_label_def)
    then have "lookup m ''default'' = Some (Label d)"
      by (simp add: lookup_def)
    with a None d \<open>typeLabelMap opr = Some m\<close> show ?thesis by (simp add: spec_label_def)
  qed
qed

text \<open>
  Claim C8. For every column data type (null when no column is selected, or a tag: a
  non-empty string that is not one of the names every object inherits, such as
  \<open>toString\<close>) and every catalog whose default labels are non-empty,
  \<open>getOperatorOptions\<close> returns, in catalog order, exactly the operators that have no
  type-label map, have a default label, or have an explicit label for the type, each with
  its id and labelled by the type-specific label if present, otherwise the default label,
  otherwise the id.
\<close>

theorem operator_options_as_specified:
  assumes "ty \<noteq> Some []"
      and "\<forall>t. ty = Some t \<longrightarrow> t \<notin> set Object_prototype"
      and "\<forall>opr \<in> set OPERATORS. default_label opr \<noteq> Some []"
  shows "getOperatorOptions OPERATORS ty = spec_options OPERATORS ty"
proof -
  have f: "filter (\<lambda>opr. case typeLabelMap opr of
                            None \<Rightarrow> True
                          | Some m \<Rightarrow> truthy_str (m ''default'') \<or> in_map ty m) OPERATORS
           = filter (spec_offered ty) OPERATORS"
    using assms by (intro filter_cong refl offered_iff) auto
  show ?thesis
    unfolding getOperatorOptions_def spec_options_def f
    using assms(1,2) by (intro map_cong refl) (simp add: label_eq)
qed

theorem operator_options_as_specified_witness:
  "getOperatorOptions sample_operators (Some ''date'')
     = [\<lparr>label = Some (Label ''exists''), ovalue = ''exists''\<rparr>,
        \<lparr>label = Some (Label ''is''), ovalue = ''=''\<rparr>]
   \<and> getOperatorOptions sample_operators (Some ''string'')
     = [\<lparr>label = Some (Label ''exists''), ovalue = ''exists''\<rparr>,
        \<lparr>label = Some (Label ''equals''), ovalue = ''=''\<rparr>,
        \<lparr>label = Some (Label ''contains''), ovalue = ''~''\<rparr>]
   \<and> getOperatorOptions sample_operators None
     = [\<lparr>label = Some (Label ''exists''), ovalue = ''exists''\<rparr>,
        \<lparr>label = Some (Label ''equals''), ovalue = ''=''\<rparr>]"
  using operator_options_as_specified [of "Some ''date''" sample_operators]
        operator_options_as_specified [of "Some ''string''" sample_operators]
        operator_options_as_specified [of None sample_operators]
  by (simp add: sample_operators_def default_label_def spec_options_def spec_offered_def
        spec_label_def type_label_def Object_prototype_def)

text \<open>
  Outside the data types: for the inherited name \<open>toString\<close> every operator with a
  type-label map is offered, labelled by the inherited member.
\<close>

lemma inherited_name_options:
  "getOperatorOptions sample_operators (Some ''toString'')
     = [\<lparr>label = Some (Label ''exists''), ovalue = ''exists''\<rparr>,
        \<lparr>label = Some (Inherited ''toString''), ovalue = ''=''\<rparr>,
        \<lparr>label = Some (Inherited ''toString''), ovalue = ''~''\<rparr>]"
  by (simp add: getOperatorOptions_def sample_operators_def lookup_def Object_prototype_def)

section \<open>Properties of the table\<close>

text \<open>
  Claim C6. \<open>allColumnsVisible\<close> is true exactly when the hidden-columns map is empty or
  every value in it is false, and the "Show all" button, rendered when hidden columns are
  enabled, is disabled exactly when \<open>allColumnsVisible\<close> is true.
\<close>

theorem all_columns_visible_iff:
  "(allColumnsVisible hiddenColumns
      \<longleftrightarrow> hiddenColumns = [] \<or> (\<forall>kv \<in> set hiddenColumns. snd kv = False))
   \<and> show_all_button True hiddenColumns = Some \<lparr>disabled = allColumnsVisible hiddenColumns\<rparr>
   \<and> show_all_button False hiddenColumns = None"
  by (auto simp add: allColumnsVisible_def show_all_button_def list_all_iff)

theorem all_columns_visible_iff_witness:
  "allColumnsVisible [(''name'', False), (''age'', False)]
   \<and> \<not> allColumnsVisible [(''name'', False), (''age'', True)]
   \<and> allColumnsVisible []
   \<and> show_all_button True [(''name'', False), (''age'', True)] = Some \<lparr>disabled = False\<rparr>"
  using all_columns_visible_iff [of "[(''name'', False), (''age'', False)]"]
        all_columns_visible_iff [of "[(''name'', False), (''age'', True)]"]
        all_columns_visible_iff [of "[]"]
  by simp

text \<open>
  Claim C7. A rows-per-page change calls \<open>update\<close> with the rows-per-page value that
  \<open>parseInt\<close> reads from the input in radix 10 and with page 0. A page change calls
  \<open>update.page\<close> with the new page number as it is. Each handler makes this one call
  and no other.
\<close>

theorem pagination_updates:
  "onRowsPerPageChange parseInt e calls
     = calls @ [Update \<lparr>rowsPerPage = parseInt (target_value e) 10, page = 0\<rparr>]
   \<and> onPageChange e' newPage calls = calls @ [Update_page newPage]"
  by (simp add: onRowsPerPageChange_def onPageChange_def)

text \<open>
  Claim C9. The plain footer row is rendered exactly when some flattened column declares a
  footer, and the column-group footer row exactly when some top-level entry declares both
  a column group and a footer. When both rows are rendered, the plain row has one cell for
  each flattened column, and the row span of a cell is 2 exactly when its column is not
  both in a column group and under a group footer, and 1 otherwise.
\<close>

theorem footer_rows:
  "((\<exists>ft row. render_footer structure d = Some ft \<and> plain_row ft = Some row)
      \<longleftrightarrow> (\<exists>c \<in> set (flattened structure). fc_footer c \<noteq> None))
   \<and> ((\<exists>ft row. render_footer structure d = Some ft \<and> group_row ft = Some row)
      \<longleftrightarrow> (\<exists>c \<in> set (entries structure). colGroup c \<noteq> None \<and> footer c \<noteq> None))
   \<and> (\<forall>ft prow grow.
         render_footer structure d = Some ft \<and> plain_row ft = Some prow
           \<and> group_row ft = Some grow
         \<longrightarrow> length prow = length (flattened structure)
             \<and> (\<forall>i < length prow.
                   cell_key (prow ! i) = fc_key (flattened structure ! i)
                   \<and> rowSpan (prow ! i)
                       = Some (if \<not> (fc_isColGroup (flattened structure ! i)
                                      \<and> fc_hasColGroupFooter (flattened structure ! i))
                               then 2 else 1)))"
proof -
  have plain: "(\<exists>ft row. render_footer structure d = Some ft \<and> plain_row ft = Some row)
          \<longleftrightarrow> (\<exists>c \<in> set (flattened structure). fc_footer c \<noteq> None)"
    by (auto simp add: render_footer_def hasFooter_def list_ex_iff split: if_splits)
  have group: "(\<exists>ft row. render_footer structure d = Some ft \<and> group_row ft = Some row)
          \<longleftrightarrow> (\<exists>c \<in> set (entries structure). colGroup c \<noteq> None \<and> footer c \<noteq> None)"
    by (auto simp add: render_footer_def hasColGroupFooter_def list_ex_iff split: if_splits)
  have spans: "length prow = length (flattened structure)
             \<and> (\<forall>i < length prow.
                   cell_key (prow ! i) = fc_key (flattened structure ! i)
                   \<and> rowSpan (prow ! i)
                       = Some (if \<not> (fc_isColGroup (flattened structure ! i)
                                      \<and> fc_hasColGroupFooter (flattened structure ! i))
                               then 2 else 1))"
    if h: "render_footer structure d = Some ft \<and> plain_row ft = Some prow
               \<and> group_row ft = Some grow"
    for ft prow grow
  proof -
    from h have g: "hasColGroupFooter structure"
      by (auto simp add: render_footer_def split: if_splits)
    from h have p: "prow = map (plain_cell structure d) (flattened structure)"
      by (auto simp add: render_footer_def split: if_splits)
    show ?thesis
      using g by (simp add: p plain_cell_def)
  qed
  from plain group spans show ?thesis by blast
qed

theorem footer_rows_witness:
  "render_footer sample_structure []
     = Some \<lparr>plain_row =
                Some [\<lparr>cell_key = ''name'', rowSpan = Some 2, colSpan = None, children = ''rows''\<rparr>,
                      \<lparr>cell_key = ''maths'', rowSpan = Some 1, colSpan = None, children = []\<rparr>,
                      \<lparr>cell_key = ''physics'', rowSpan = Some 1, colSpan = None, children = []\<rparr>],
              group_row =
                Some [\<lparr>cell_key = ''scores'', rowSpan = None, colSpan = Some 2,
                       children = ''all scores''\<rparr>]\<rparr>
   \<and> (\<exists>ft row. render_footer sample_structure [] = Some ft \<and> plain_row ft = Some row)
   \<and> (\<exists>ft row. render_footer sample_structure [] = Some ft \<and> group_row ft = Some row)
   \<and> (\<exists>ft prow. render_footer sample_structure [] = Some ft \<and> plain_row ft = Some prow
         \<and> length prow = 3 \<and> rowSpan (prow ! 0) = Some 2 \<and> rowSpan (prow ! 1) = Some 1
         \<and> rowSpan (prow ! 2) = Some 1)"
proof -
  let ?P = "[\<lparr>cell_key = ''name'', rowSpan = Some 2, colSpan = None, children = ''rows''\<rparr>,
             \<lparr>cell_key = ''maths'', rowSpan = Some 1, colSpan = None, children = []\<rparr>,
             \<lparr>cell_key = ''physics'', rowSpan = Some 1, colSpan = None, children = []\<rparr>]"
  let ?G = "[\<lparr>cell_key = ''scores'', rowSpan = None, colSpan = Some 2,
              children = ''all scores''\<rparr>]"
  let ?ft = "\<lparr>plain_row = Some ?P, group_row = Some ?G\<rparr>"
  have r: "render_footer sample_structure [] = Some ?ft"
    by (simp add: render_footer_def hasFooter_def hasColGroupFooter_def plain_cell_def
          group_cell_def List.map_filter_simps sample_structure_def)
  note t = footer_rows [of sample_structure "[]"]
  from t have a: "\<exists>ft row. render_footer sample_structure [] = Some ft \<and> plain_row ft = Some row"
    by (simp add: sample_structure_def)
  from t have b: "\<exists>ft row. render_footer sample_structure [] = Some ft \<and> group_row ft = Some row"
    by (simp add: sample_structure_def)
  from t have "render_footer sample_structure [] = Some ?ft \<and> plain_row ?ft = Some ?P
           \<and> group_row ?ft = Some ?G
         \<longrightarrow> length ?P = length (flattened sample_structure)
             \<and> (\<forall>i < length ?P.
                   cell_key (?P ! i) = fc_key (flattened sample_structure ! i)
                   \<and> rowSpan (?P ! i)
                       = Some (if \<not> (fc_isColGroup (flattened sample_structure ! i)
                                      \<and> fc_hasColGroupFooter (flattened sample_structure ! i))
                               then 2 else 1))"
    by blast
  with r have c: "length ?P = 3 \<and> rowSpan (?P ! 0) = Some 2 \<and> rowSpan (?P ! 1) = Some 1
                  \<and> rowSpan (?P ! 2) = Some 1"
    by simp
  from r a b c show ?thesis by simp
qed

end
